theory Spec2Isabelle
  imports Main
begin

section \<open>Data model\<close>

text \<open>
  The pages of the application (\<^verbatim>\<open>Groups.tsx\<close>, \<^verbatim>\<open>Supplies.tsx\<close>, \<^verbatim>\<open>Dashboard.tsx\<close> and
  the tags page) read and write four backend tables through the generated client:
  \<^verbatim>\<open>groups\<close>, \<^verbatim>\<open>user_groups\<close>, \<^verbatim>\<open>tags\<close> and \<^verbatim>\<open>supplies\<close>. Row identifiers are strings and
  \<^verbatim>\<open>created_at\<close> is a point in time, compared chronologically.

  JavaScript numbers are IEEE-754 doubles. They are the type parameter \<open>'n\<close>: a type with
  the operations \<open>+\<close>, \<open>-\<close>, \<open>*\<close>, \<open><\<close> and the constant \<open>0\<close>, of which nothing is assumed (no
  law of exact arithmetic, no law of rounding). Doubles are one such type, so whatever is
  proved for every \<open>'n\<close> holds of the numbers the pages compute with. The pages compare
  no two numbers with \<open>=\<close>.
\<close>

type_synonym uuid = string
type_synonym timestamp = nat

record group_row =
  g_id :: uuid
  g_name :: string
  g_description :: string
  g_created_by :: uuid
  g_created_at :: timestamp

record user_group_row =
  ug_user_id :: uuid
  ug_group_id :: uuid
  ug_role :: string

record tag_row =
  t_id :: uuid
  t_name :: string
  t_color :: string
  t_group_id :: uuid
  t_created_by :: uuid

record 'n supply_row =
  s_id :: uuid
  s_name :: string
  s_quantity :: 'n
  s_cost :: 'n
  s_sale_price :: 'n
  s_market_price :: 'n
  s_tag_id :: "uuid option"
  s_group_id :: uuid
  s_created_by :: uuid
  s_created_at :: timestamp

record 'n database =
  groups :: "group_row list"
  user_groups :: "user_group_row list"
  tags :: "tag_row list"
  supplies :: "'n supply_row list"

text \<open>The column values that \<^verbatim>\<open>handleSubmit\<close> of the supplies page sends on insert and update.\<close>

record 'n supply_payload =
  p_name :: string
  p_quantity :: 'n
  p_cost :: 'n
  p_sale_price :: 'n
  p_market_price :: 'n
  p_tag_id :: "uuid option"
  p_group_id :: uuid

text \<open>
  What the pages use of numbers beyond arithmetic. \<open>falsy\<close> is the truthiness test of
  \<^verbatim>\<open>x || 0\<close> (zero and NaN are falsy). \<open>input_ok\<close> is what the browser checks of a number
  input besides its minimum: that a value is present (\<^verbatim>\<open>required\<close>) and on the grid of
  \<^verbatim>\<open>step="0.01"\<close>. Both are parameters.
\<close>

record 'n numbers =
  falsy :: "'n \<Rightarrow> bool"
  input_ok :: "'n \<Rightarrow> bool"

section \<open>The backend client\<close>

text \<open>
  Every call \<^verbatim>\<open>supabase.from(table)...\<close> is one request, sent under the session of the
  signed-in user. The client answers with a pair \<^verbatim>\<open>{ data, error }\<close> and does not throw.
  Which requests the backend refuses for which user (its access policies, its constraints,
  the transport) is not part of the pages: it is the parameter \<open>denies\<close>, which is given the
  session's user, the request and the database, and gives the error message of a refused
  request. The identifier and the creation time that the backend assigns to a new row are
  parameters as well.
\<close>

datatype 'n request =
    InsertGroup string string uuid
  | InsertUserGroup uuid uuid string
  | DeleteGroup uuid
  | DeleteTag uuid
  | InsertSupply "'n supply_payload" uuid
  | UpdateSupply uuid "'n supply_payload"
  | SelectGroups uuid
  | SelectMemberGroups uuid
  | SelectUserGroups uuid
  | SelectSupplies "uuid list"
  | CountGroups "uuid list"
  | CountTags "uuid list"
  | SelectTags uuid

record 'n backend =
  denies :: "uuid \<Rightarrow> 'n request \<Rightarrow> 'n database \<Rightarrow> string option"
  new_id :: "'n database \<Rightarrow> uuid"
  now :: "'n database \<Rightarrow> timestamp"

text \<open>\<^verbatim>\<open>from('groups').insert({name, description, created_by}).select().single()\<close>\<close>

definition insert_group ::
  "'n backend \<Rightarrow> uuid \<Rightarrow> string \<Rightarrow> string \<Rightarrow> uuid \<Rightarrow> 'n database \<Rightarrow>
     string + (group_row \<times> 'n database)" where
  "insert_group bk session name description created_by db =
     (case denies bk session (InsertGroup name description created_by) db of
        Some err \<Rightarrow> Inl err
      | None \<Rightarrow>
          (let row = \<lparr>g_id = new_id bk db, g_name = name, g_description = description,
                      g_created_by = created_by, g_created_at = now bk db\<rparr>
           in Inr (row, db\<lparr>groups := groups db @ [row]\<rparr>)))"

text \<open>\<^verbatim>\<open>from('user_groups').insert({user_id, group_id, role})\<close>\<close>

definition insert_user_group ::
  "'n backend \<Rightarrow> uuid \<Rightarrow> uuid \<Rightarrow> uuid \<Rightarrow> string \<Rightarrow> 'n database \<Rightarrow> string + 'n database" where
  "insert_user_group bk session user_id group_id role db =
     (case denies bk session (InsertUserGroup user_id group_id role) db of
        Some err \<Rightarrow> Inl err
      | None \<Rightarrow>
          Inr (db\<lparr>user_groups := user_groups db @
                 [\<lparr>ug_user_id = user_id, ug_group_id = group_id, ug_role = role\<rparr>]\<rparr>))"

text \<open>
  Modelled from the spec: the cascade of a group deletion is done by the backend's schema,
  which is not among the source files. The specification gives the persistence collaborator
  \<^emph>\<open>cascading delete support on groups to tags, supplies, memberships\<close>: deleting the rows of
  \<^verbatim>\<open>groups\<close> with the given id (\<^verbatim>\<open>from('groups').delete().eq('id', groupId)\<close>) also deletes
  the tags, supplies and memberships that reference that group. Deleting no row is not an
  error.
\<close>

definition delete_group :: "'n backend \<Rightarrow> uuid \<Rightarrow> uuid \<Rightarrow> 'n database \<Rightarrow> string + 'n database" where
  "delete_group bk session groupId db =
     (case denies bk session (DeleteGroup groupId) db of
        Some err \<Rightarrow> Inl err
      | None \<Rightarrow>
          Inr \<lparr>groups = filter (\<lambda>g. g_id g \<noteq> groupId) (groups db),
               user_groups = filter (\<lambda>m. ug_group_id m \<noteq> groupId) (user_groups db),
               tags = filter (\<lambda>t. t_group_id t \<noteq> groupId) (tags db),
               supplies = filter (\<lambda>s. s_group_id s \<noteq> groupId) (supplies db)\<rparr>)"

text \<open>\<^verbatim>\<open>from('tags').delete().eq('id', tagId)\<close>: the rows with that id are removed; deleting
  no row is not an error.\<close>

definition delete_tag :: "'n backend \<Rightarrow> uuid \<Rightarrow> uuid \<Rightarrow> 'n database \<Rightarrow> string + 'n database" where
  "delete_tag bk session tagId db =
     (case denies bk session (DeleteTag tagId) db of
        Some err \<Rightarrow> Inl err
      | None \<Rightarrow> Inr (db\<lparr>tags := filter (\<lambda>t. t_id t \<noteq> tagId) (tags db)\<rparr>))"

text \<open>\<^verbatim>\<open>from('supplies').insert({...payload, created_by})\<close>\<close>

definition insert_supply ::
  "'n backend \<Rightarrow> uuid \<Rightarrow> 'n supply_payload \<Rightarrow> uuid \<Rightarrow> 'n database \<Rightarrow> string + 'n database" where
  "insert_supply bk session p created_by db =
     (case denies bk session (InsertSupply p created_by) db of
        Some err \<Rightarrow> Inl err
      | None \<Rightarrow>
          Inr (db\<lparr>supplies := supplies db @
                 [\<lparr>s_id = new_id bk db, s_name = p_name p, s_quantity = p_quantity p,
                   s_cost = p_cost p, s_sale_price = p_sale_price p,
                   s_market_price = p_market_price p, s_tag_id = p_tag_id p,
                   s_group_id = p_group_id p, s_created_by = created_by,
                   s_created_at = now bk db\<rparr>]\<rparr>))"

text \<open>\<^verbatim>\<open>from('supplies').update({...payload}).eq('id', editingId)\<close>: the columns of the
  payload are written into every row with that id; the other columns are kept.\<close>

definition apply_payload :: "'n supply_payload \<Rightarrow> 'n supply_row \<Rightarrow> 'n supply_row" where
  "apply_payload p s =
     s\<lparr>s_name := p_name p, s_quantity := p_quantity p, s_cost := p_cost p,
       s_sale_price := p_sale_price p, s_market_price := p_market_price p,
       s_tag_id := p_tag_id p, s_group_id := p_group_id p\<rparr>"

definition update_supply ::
  "'n backend \<Rightarrow> uuid \<Rightarrow> uuid \<Rightarrow> 'n supply_payload \<Rightarrow> 'n database \<Rightarrow> string + 'n database" where
  "update_supply bk session editingId p db =
     (case denies bk session (UpdateSupply editingId p) db of
        Some err \<Rightarrow> Inl err
      | None \<Rightarrow>
          Inr (db\<lparr>supplies :=
                 map (\<lambda>s. if s_id s = editingId then apply_payload p s else s) (supplies db)\<rparr>))"

text \<open>\<^verbatim>\<open>from('user_groups').select('group_id').eq('user_id', user.id)\<close>\<close>

definition select_user_groups ::
  "'n backend \<Rightarrow> uuid \<Rightarrow> uuid \<Rightarrow> 'n database \<Rightarrow> string + user_group_row list" where
  "select_user_groups bk session user db =
     (case denies bk session (SelectUserGroups user) db of
        Some err \<Rightarrow> Inl err
      | None \<Rightarrow> Inr (filter (\<lambda>m. ug_user_id m = user) (user_groups db)))"

text \<open>
  \<^verbatim>\<open>from('user_groups').select('group_id, groups(id, name)').eq('user_id', user.id)\<close>: every
  membership row of the user with the group it references embedded, \<^verbatim>\<open>null\<close> when there is
  no such group.
\<close>

record group_choice =
  gc_id :: uuid
  gc_name :: string

definition embedded_group :: "'n database \<Rightarrow> user_group_row \<Rightarrow> group_choice option" where
  "embedded_group db m =
     map_option (\<lambda>g. \<lparr>gc_id = g_id g, gc_name = g_name g\<rparr>)
       (find (\<lambda>g. g_id g = ug_group_id m) (groups db))"

definition select_member_groups ::
  "'n backend \<Rightarrow> uuid \<Rightarrow> uuid \<Rightarrow> 'n database \<Rightarrow> string + group_choice option list" where
  "select_member_groups bk session user db =
     (case denies bk session (SelectMemberGroups user) db of
        Some err \<Rightarrow> Inl err
      | None \<Rightarrow> Inr (map (embedded_group db) (filter (\<lambda>m. ug_user_id m = user) (user_groups db))))"

text \<open>\<^verbatim>\<open>from('supplies').select(...).in('group_id', groupIds)\<close>\<close>

definition select_supplies ::
  "'n backend \<Rightarrow> uuid \<Rightarrow> uuid list \<Rightarrow> 'n database \<Rightarrow> string + 'n supply_row list" where
  "select_supplies bk session groupIds db =
     (case denies bk session (SelectSupplies groupIds) db of
        Some err \<Rightarrow> Inl err
      | None \<Rightarrow> Inr (filter (\<lambda>s. s_group_id s \<in> set groupIds) (supplies db)))"

text \<open>\<^verbatim>\<open>.order('created_at', { ascending: false })\<close>\<close>

definition order_created_at_desc :: "'n supply_row list \<Rightarrow> 'n supply_row list" where
  "order_created_at_desc rows = rev (sort_key s_created_at rows)"

text \<open>\<^verbatim>\<open>from('groups').select('*', { count: 'exact', head: true }).in('id', groupIds)\<close>\<close>

definition count_groups :: "'n backend \<Rightarrow> uuid \<Rightarrow> uuid list \<Rightarrow> 'n database \<Rightarrow> string + nat" where
  "count_groups bk session groupIds db =
     (case denies bk session (CountGroups groupIds) db of
        Some err \<Rightarrow> Inl err
      | None \<Rightarrow> Inr (length (filter (\<lambda>g. g_id g \<in> set groupIds) (groups db))))"

text \<open>\<^verbatim>\<open>from('tags').select('*', { count: 'exact', head: true }).in('group_id', groupIds)\<close>\<close>

definition count_tags :: "'n backend \<Rightarrow> uuid \<Rightarrow> uuid list \<Rightarrow> 'n database \<Rightarrow> string + nat" where
  "count_tags bk session groupIds db =
     (case denies bk session (CountTags groupIds) db of
        Some err \<Rightarrow> Inl err
      | None \<Rightarrow> Inr (length (filter (\<lambda>t. t_group_id t \<in> set groupIds) (tags db))))"

text \<open>\<^verbatim>\<open>from('tags').select('*').eq('group_id', groupId)\<close>\<close>

definition select_tags :: "'n backend \<Rightarrow> uuid \<Rightarrow> uuid \<Rightarrow> 'n database \<Rightarrow> string + tag_row list" where
  "select_tags bk session groupId db =
     (case denies bk session (SelectTags groupId) db of
        Some err \<Rightarrow> Inl err
      | None \<Rightarrow> Inr (filter (\<lambda>t. t_group_id t = groupId) (tags db)))"

text \<open>
  \<^verbatim>\<open>from('groups').select('*, user_groups!inner(role)').eq('user_groups.user_id', user.id)\<close>:
  every group with at least one membership row of the user, together with the roles of
  those rows.
\<close>

record group_view =
  gv_group :: group_row
  gv_user_groups :: "string list"

definition roles_of :: "uuid \<Rightarrow> uuid \<Rightarrow> 'n database \<Rightarrow> string list" where
  "roles_of user groupId db =
     map ug_role (filter (\<lambda>m. ug_user_id m = user \<and> ug_group_id m = groupId) (user_groups db))"

definition select_groups ::
  "'n backend \<Rightarrow> uuid \<Rightarrow> uuid \<Rightarrow> 'n database \<Rightarrow> string + group_view list" where
  "select_groups bk session user db =
     (case denies bk session (SelectGroups user) db of
        Some err \<Rightarrow> Inl err
      | None \<Rightarrow>
          Inr (map (\<lambda>g. \<lparr>gv_group = g, gv_user_groups = roles_of user (g_id g) db\<rparr>)
                 (filter (\<lambda>g. roles_of user (g_id g) db \<noteq> []) (groups db))))"

section \<open>Outcomes of the handlers\<close>

text \<open>
  A handler that writes ends with the success toast (\<open>Succeeded\<close>), with the destructive
  toast carrying the backend's message (\<open>Failed\<close>), or returns early because the user
  declined the \<^verbatim>\<open>confirm\<close> dialog (\<open>Cancelled\<close>). Two outcomes are those of the page around
  the handler, which then does not run and sends no request: \<open>Blocked\<close> is the form whose
  constraint validation fails (the browser shows the validation message and does not
  dispatch the submit event), and \<open>NotRendered\<close> is the control that the page does not
  render for the signed-in user.
\<close>

datatype outcome = Blocked | NotRendered | Cancelled | Succeeded | Failed string

section \<open>Groups page\<close>

record group_form =
  gf_name :: string
  gf_description :: string

text \<open>\<^verbatim>\<open>loadGroups\<close>: on error the list kept in the page state is left as it is.\<close>

definition Groups_loadGroups ::
  "'n backend \<Rightarrow> uuid \<Rightarrow> group_view list \<Rightarrow> 'n database \<Rightarrow> string option \<times> group_view list" where
  "Groups_loadGroups bk user shown db =
     (case select_groups bk user user db of
        Inl err \<Rightarrow> (Some err, shown)
      | Inr rows \<Rightarrow> (None, rows))"

text \<open>\<^verbatim>\<open>handleSubmit\<close> of the groups page: insert the group, then insert the creator's
  membership with the id of the returned row.\<close>

definition Groups_handleSubmit ::
  "'n backend \<Rightarrow> uuid \<Rightarrow> group_form \<Rightarrow> 'n database \<Rightarrow> outcome \<times> 'n database" where
  "Groups_handleSubmit bk user formData db =
     (case insert_group bk user (gf_name formData) (gf_description formData) user db of
        Inl groupError \<Rightarrow> (Failed groupError, db)
      | Inr (newGroup, db1) \<Rightarrow>
          (case insert_user_group bk user user (g_id newGroup) ''admin'' db1 of
             Inl memberError \<Rightarrow> (Failed memberError, db1)
           | Inr db2 \<Rightarrow> (Succeeded, db2)))"

text \<open>\<^verbatim>\<open>handleDelete\<close> of the groups page.\<close>

definition Groups_handleDelete ::
  "'n backend \<Rightarrow> uuid \<Rightarrow> bool \<Rightarrow> uuid \<Rightarrow> 'n database \<Rightarrow> outcome \<times> 'n database" where
  "Groups_handleDelete bk user confirmed groupId db =
     (if \<not> confirmed then (Cancelled, db)
      else (case delete_group bk user groupId db of
              Inl err \<Rightarrow> (Failed err, db)
            | Inr db' \<Rightarrow> (Succeeded, db')))"

text \<open>The delete button of a group card is rendered under
  \<^verbatim>\<open>group.created_by === user?.id\<close>.\<close>

definition delete_button_rendered :: "uuid \<Rightarrow> group_view \<Rightarrow> bool" where
  "delete_button_rendered user shownGroup = (g_created_by (gv_group shownGroup) = user)"

text \<open>
  The only call of \<^verbatim>\<open>handleDelete\<close> is the \<^verbatim>\<open>onClick\<close> of that button,
  \<^verbatim>\<open>() => handleDelete(group.id)\<close>: deleting a group from its card.
\<close>

definition Groups_deleteButton_onClick ::
  "'n backend \<Rightarrow> uuid \<Rightarrow> group_view \<Rightarrow> bool \<Rightarrow> 'n database \<Rightarrow> outcome \<times> 'n database" where
  "Groups_deleteButton_onClick bk user shownGroup confirmed db =
     (if delete_button_rendered user shownGroup
      then Groups_handleDelete bk user confirmed (g_id (gv_group shownGroup)) db
      else (NotRendered, db))"

section \<open>Tags page\<close>

text \<open>\<^verbatim>\<open>handleDelete\<close> of the tags page. Its button is rendered on the card of every tag
  the page lists, under no condition.\<close>

definition Tags_handleDelete ::
  "'n backend \<Rightarrow> uuid \<Rightarrow> bool \<Rightarrow> uuid \<Rightarrow> 'n database \<Rightarrow> outcome \<times> 'n database" where
  "Tags_handleDelete bk user confirmed tagId db =
     (if \<not> confirmed then (Cancelled, db)
      else (case delete_tag bk user tagId db of
              Inl err \<Rightarrow> (Failed err, db)
            | Inr db' \<Rightarrow> (Succeeded, db')))"

section \<open>Supplies page\<close>

record 'n supply_form =
  fd_name :: string
  fd_quantity :: 'n
  fd_cost :: 'n
  fd_sale_price :: 'n
  fd_market_price :: 'n
  fd_tag_id :: string
  fd_group_id :: string

text \<open>\<^verbatim>\<open>loadGroups\<close> of the supplies page: the groups offered in the group select are the
  embedded groups of the user's membership rows, \<^verbatim>\<open>null\<close>s dropped
  (\<^verbatim>\<open>data?.map((item) => item.groups).filter(Boolean)\<close>).\<close>

definition Supplies_loadGroups ::
  "'n backend \<Rightarrow> uuid \<Rightarrow> group_choice list \<Rightarrow> 'n database \<Rightarrow>
     string option \<times> group_choice list" where
  "Supplies_loadGroups bk user shown db =
     (case select_member_groups bk user user db of
        Inl err \<Rightarrow> (Some err, shown)
      | Inr rows \<Rightarrow> (None, List.map_filter (\<lambda>g. g) rows))"

text \<open>\<^verbatim>\<open>formData.tag_id || null\<close>: the empty string is falsy.\<close>

definition or_null :: "string \<Rightarrow> string option" where
  "or_null v = (if v = [] then None else Some v)"

definition payload_of :: "'n supply_form \<Rightarrow> 'n supply_payload" where
  "payload_of formData =
     \<lparr>p_name = fd_name formData, p_quantity = fd_quantity formData, p_cost = fd_cost formData,
      p_sale_price = fd_sale_price formData, p_market_price = fd_market_price formData,
      p_tag_id = or_null (fd_tag_id formData), p_group_id = fd_group_id formData\<rparr>"

text \<open>\<^verbatim>\<open>if (editingId)\<close>: \<^verbatim>\<open>null\<close> and the empty string are falsy.\<close>

definition truthy :: "string option \<Rightarrow> bool" where
  "truthy v = (case v of None \<Rightarrow> False | Some x \<Rightarrow> x \<noteq> [])"

text \<open>\<^verbatim>\<open>handleSubmit\<close> of the supplies page: an update when a row is being edited, an insert
  otherwise.\<close>

definition Supplies_handleSubmit ::
  "'n backend \<Rightarrow> uuid \<Rightarrow> string option \<Rightarrow> 'n supply_form \<Rightarrow> 'n database \<Rightarrow>
     outcome \<times> 'n database" where
  "Supplies_handleSubmit bk user editingId formData db =
     (if truthy editingId then
        (case update_supply bk user (the editingId) (payload_of formData) db of
           Inl err \<Rightarrow> (Failed err, db)
         | Inr db' \<Rightarrow> (Succeeded, db'))
      else
        (case insert_supply bk user (payload_of formData) user db of
           Inl err \<Rightarrow> (Failed err, db)
         | Inr db' \<Rightarrow> (Succeeded, db')))"

text \<open>
  The inputs of the supply form, the same for a new supply and for an edited one. The
  group select is \<^verbatim>\<open>required\<close> and its options are the groups the page has loaded: it is
  valid when the chosen id is not empty and is the id of one of them. The name is
  \<^verbatim>\<open>required\<close>. Quantity, cost, sale price and market price are
  \<^verbatim>\<open>type="number" min="0" step="0.01" required\<close>. The tag select is not required. The form
  is submitted to \<^verbatim>\<open>handleSubmit\<close> only when every input is valid.
\<close>

definition number_input_valid :: "('n::{zero,ord}) numbers \<Rightarrow> 'n \<Rightarrow> bool" where
  "number_input_valid js v = (input_ok js v \<and> \<not> v < 0)"

definition form_valid ::
  "('n::{zero,ord}) numbers \<Rightarrow> group_choice list \<Rightarrow> 'n supply_form \<Rightarrow> bool" where
  "form_valid js offered formData =
     (fd_group_id formData \<noteq> [] \<and> fd_group_id formData \<in> set (map gc_id offered) \<and>
      fd_name formData \<noteq> [] \<and>
      number_input_valid js (fd_quantity formData) \<and> number_input_valid js (fd_cost formData) \<and>
      number_input_valid js (fd_sale_price formData) \<and>
      number_input_valid js (fd_market_price formData))"

definition Supplies_form_onSubmit ::
  "('n::{zero,ord}) numbers \<Rightarrow> 'n backend \<Rightarrow> uuid \<Rightarrow> group_choice list \<Rightarrow> string option \<Rightarrow>
     'n supply_form \<Rightarrow> 'n database \<Rightarrow> outcome \<times> 'n database" where
  "Supplies_form_onSubmit js bk user offered editingId formData db =
     (if form_valid js offered formData then Supplies_handleSubmit bk user editingId formData db
      else (Blocked, db))"

text \<open>\<^verbatim>\<open>loadTags\<close>: the tag choices of the form are the tags of the selected group.\<close>

definition Supplies_loadTags ::
  "'n backend \<Rightarrow> uuid \<Rightarrow> uuid \<Rightarrow> tag_row list \<Rightarrow> 'n database \<Rightarrow> string option \<times> tag_row list" where
  "Supplies_loadTags bk user groupId shown db =
     (case select_tags bk user groupId db of
        Inl err \<Rightarrow> (Some err, shown)
      | Inr rows \<Rightarrow> (None, rows))"

text \<open>\<^verbatim>\<open>userGroups?.map((ug) => ug.group_id) || []\<close>: the error of the membership query
  is not inspected, a refused query gives no group ids.\<close>

definition group_ids_of :: "string + user_group_row list \<Rightarrow> uuid list" where
  "group_ids_of userGroups =
     (case userGroups of Inl err \<Rightarrow> [] | Inr rows \<Rightarrow> map ug_group_id rows)"

text \<open>\<^verbatim>\<open>loadSupplies\<close>: with no group id the function returns and the list of the page state
  stays; a refused supplies query is thrown into the error toast.\<close>

definition Supplies_loadSupplies ::
  "'n backend \<Rightarrow> uuid \<Rightarrow> 'n supply_row list \<Rightarrow> 'n database \<Rightarrow>
     string option \<times> 'n supply_row list" where
  "Supplies_loadSupplies bk user shown db =
     (let groupIds = group_ids_of (select_user_groups bk user user db) in
      if length groupIds = 0 then (None, shown)
      else (case select_supplies bk user groupIds db of
              Inl err \<Rightarrow> (Some err, shown)
            | Inr rows \<Rightarrow> (None, order_created_at_desc rows)))"

text \<open>\<^verbatim>\<open>calculateProfit\<close>\<close>

definition calculateProfit :: "('n::{minus,times}) supply_row \<Rightarrow> 'n" where
  "calculateProfit supply = (s_sale_price supply - s_cost supply) * s_quantity supply"

section \<open>Dashboard\<close>

record 'n stats =
  totalSupplies :: nat
  totalGroups :: nat
  totalTags :: nat
  totalProfit :: 'n

text \<open>The state that the dashboard is mounted with.\<close>

definition initial_stats :: "('n::zero) stats" where
  "initial_stats = \<lparr>totalSupplies = 0, totalGroups = 0, totalTags = 0, totalProfit = 0\<rparr>"

text \<open>The reducer of \<^verbatim>\<open>loadStats\<close>:
  \<^verbatim>\<open>(sum, supply) => sum + ((supply.sale_price - supply.cost) * supply.quantity)\<close>.\<close>

definition profit_reducer :: "('n::{plus,minus,times}) \<Rightarrow> 'n supply_row \<Rightarrow> 'n" where
  "profit_reducer acc supply =
     acc + ((s_sale_price supply - s_cost supply) * s_quantity supply)"

text \<open>\<^verbatim>\<open>... || 0\<close> on a number: a falsy number (zero, NaN) gives \<open>0\<close>.\<close>

definition number_or_zero :: "('n::zero) numbers \<Rightarrow> 'n \<Rightarrow> 'n" where
  "number_or_zero js v = (if falsy js v then 0 else v)"

text \<open>\<^verbatim>\<open>count || 0\<close> on the answer of a counting query.\<close>

definition count_or_zero :: "string + nat \<Rightarrow> nat" where
  "count_or_zero r = (case r of Inl err \<Rightarrow> 0 | Inr n \<Rightarrow> n)"

text \<open>
  \<^verbatim>\<open>loadStats\<close>: no answer of the four queries is inspected for its error and no statement of
  the \<^verbatim>\<open>try\<close> block throws, so the error toast of the \<^verbatim>\<open>catch\<close> block is never shown (the
  first component is \<open>None\<close>). With no group id the function returns and the stats of the
  page state stay.
\<close>

definition Dashboard_loadStats ::
  "('n::{plus,minus,times,zero}) numbers \<Rightarrow> 'n backend \<Rightarrow> uuid \<Rightarrow> 'n stats \<Rightarrow> 'n database \<Rightarrow>
     string option \<times> 'n stats" where
  "Dashboard_loadStats js bk user shown db =
     (let groupIds = group_ids_of (select_user_groups bk user user db) in
      if length groupIds = 0 then (None, shown)
      else
        (let supplyRows = select_supplies bk user groupIds db;
             profit = (case supplyRows of
                         Inl err \<Rightarrow> 0
                       | Inr rows \<Rightarrow> number_or_zero js (foldl profit_reducer 0 rows));
             groupsCount = count_groups bk user groupIds db;
             tagsCount = count_tags bk user groupIds db
         in (None,
             \<lparr>totalSupplies = (case supplyRows of Inl err \<Rightarrow> 0 | Inr rows \<Rightarrow> length rows),
              totalGroups = count_or_zero groupsCount,
              totalTags = count_or_zero tagsCount,
              totalProfit = profit\<rparr>)))"

section \<open>Notions used to state the properties\<close>

text \<open>\<open>is_member\<close>: the user has a membership row for the group.\<close>

definition is_member :: "'n database \<Rightarrow> uuid \<Rightarrow> uuid \<Rightarrow> bool" where
  "is_member db group_id user_id =
     (\<exists>m \<in> set (user_groups db). ug_user_id m = user_id \<and> ug_group_id m = group_id)"

text \<open>The group ids that \<^verbatim>\<open>loadStats\<close> and \<^verbatim>\<open>loadSupplies\<close> put into their \<^verbatim>\<open>in\<close> filters
  when the membership query is answered.\<close>

definition member_group_ids :: "'n database \<Rightarrow> uuid \<Rightarrow> uuid list" where
  "member_group_ids db user =
     map ug_group_id (filter (\<lambda>m. ug_user_id m = user) (user_groups db))"

text \<open>The one request that \<^verbatim>\<open>handleSubmit\<close> of the supplies page sends.\<close>

definition submit_request :: "uuid \<Rightarrow> string option \<Rightarrow> 'n supply_form \<Rightarrow> 'n request" where
  "submit_request user editingId formData =
     (if truthy editingId then UpdateSupply (the editingId) (payload_of formData)
      else InsertSupply (payload_of formData) user)"


text \<open>The group row and the membership row that \<^verbatim>\<open>handleSubmit\<close> of the groups page asks
  the backend to write, and the database after the first and after the second write.\<close>

definition created_group :: "'n backend \<Rightarrow> uuid \<Rightarrow> group_form \<Rightarrow> 'n database \<Rightarrow> group_row" where
  "created_group bk user formData db =
     \<lparr>g_id = new_id bk db, g_name = gf_name formData, g_description = gf_description formData,
      g_created_by = user, g_created_at = now bk db\<rparr>"

definition creator_membership :: "'n backend \<Rightarrow> uuid \<Rightarrow> 'n database \<Rightarrow> user_group_row" where
  "creator_membership bk user db =
     \<lparr>ug_user_id = user, ug_group_id = new_id bk db, ug_role = ''admin''\<rparr>"

definition with_group :: "'n backend \<Rightarrow> uuid \<Rightarrow> group_form \<Rightarrow> 'n database \<Rightarrow> 'n database" where
  "with_group bk user formData db =
     db\<lparr>groups := groups db @ [created_group bk user formData db]\<rparr>"

definition with_group_and_membership ::
  "'n backend \<Rightarrow> uuid \<Rightarrow> group_form \<Rightarrow> 'n database \<Rightarrow> 'n database" where
  "with_group_and_membership bk user formData db =
     db\<lparr>groups := groups db @ [created_group bk user formData db],
        user_groups := user_groups db @ [creator_membership bk user db]\<rparr>"

section \<open>Example data\<close>

text \<open>
  The examples use whole numbers, as integers: on them the arithmetic of doubles is exact,
  so that the page computes what the integers give. A whole number is falsy when it is
  zero, and it is on the grid of the number inputs.
\<close>

definition whole_numbers :: "int numbers" where
  "whole_numbers = \<lparr>falsy = (\<lambda>v. v = 0), input_ok = (\<lambda>v. True)\<rparr>"

text \<open>A backend that refuses nothing, one whose membership inserts fail, one whose
  supplies queries fail, and one that refuses every request.\<close>

definition accepting :: "'n backend" where
  "accepting = \<lparr>denies = (\<lambda>u r db. None), new_id = (\<lambda>db. ''id-new''), now = (\<lambda>db. 100)\<rparr>"

definition refusing_memberships :: "'n backend" where
  "refusing_memberships =
     \<lparr>denies = (\<lambda>u r db. case r of InsertUserGroup m g ro \<Rightarrow> Some ''request failed''
                           | _ \<Rightarrow> None),
      new_id = (\<lambda>db. ''id-new''), now = (\<lambda>db. 100)\<rparr>"

definition refusing_supplies :: "'n backend" where
  "refusing_supplies =
     \<lparr>denies = (\<lambda>u r db. case r of SelectSupplies ids \<Rightarrow> Some ''request failed''
                           | _ \<Rightarrow> None),
      new_id = (\<lambda>db. ''id-new''), now = (\<lambda>db. 100)\<rparr>"

definition refusing_all :: "'n backend" where
  "refusing_all =
     \<lparr>denies = (\<lambda>u r db. Some ''request failed''), new_id = (\<lambda>db. ''id-new''),
      now = (\<lambda>db. 100)\<rparr>"

definition empty_db :: "'n database" where
  "empty_db = \<lparr>groups = [], user_groups = [], tags = [], supplies = []\<rparr>"

text \<open>The group form of the examples and the rows that the example backends write for it.\<close>

definition bodega_form :: group_form where
  "bodega_form = \<lparr>gf_name = ''Bodega'', gf_description = []\<rparr>"

definition bodega :: group_row where
  "bodega = \<lparr>g_id = ''id-new'', g_name = ''Bodega'', g_description = [],
             g_created_by = ''u1'', g_created_at = 100\<rparr>"

definition bodega_admin :: user_group_row where
  "bodega_admin = \<lparr>ug_user_id = ''u1'', ug_group_id = ''id-new'', ug_role = ''admin''\<rparr>"

text \<open>
  Two groups: \<open>g1\<close> created by \<open>u1\<close>, with the members \<open>u1\<close> and \<open>u2\<close>, and \<open>g2\<close> created by
  \<open>u2\<close>, with the member \<open>u2\<close>. The user \<open>u3\<close> is in no group. The two supplies of \<open>g1\<close> are
  those of the specification's dashboard example.
\<close>

definition group1 :: group_row where
  "group1 = \<lparr>g_id = ''g1'', g_name = ''Cocina'', g_description = [], g_created_by = ''u1'',
             g_created_at = 1\<rparr>"

definition group2 :: group_row where
  "group2 = \<lparr>g_id = ''g2'', g_name = ''Bar'', g_description = [], g_created_by = ''u2'',
             g_created_at = 2\<rparr>"

definition tag1 :: tag_row where
  "tag1 = \<lparr>t_id = ''t1'', t_name = ''Secos'', t_color = ''#3B82F6'', t_group_id = ''g1'',
           t_created_by = ''u1''\<rparr>"

definition tag2 :: tag_row where
  "tag2 = \<lparr>t_id = ''t2'', t_name = ''Licores'', t_color = ''#EF4444'', t_group_id = ''g2'',
           t_created_by = ''u2''\<rparr>"

definition supply1 :: "int supply_row" where
  "supply1 = \<lparr>s_id = ''s1'', s_name = ''Harina'', s_quantity = 2, s_cost = 10,
              s_sale_price = 15, s_market_price = 14, s_tag_id = Some ''t1'',
              s_group_id = ''g1'', s_created_by = ''u1'', s_created_at = 10\<rparr>"

definition supply2 :: "int supply_row" where
  "supply2 = \<lparr>s_id = ''s2'', s_name = ''Azucar'', s_quantity = 4, s_cost = 5,
              s_sale_price = 3, s_market_price = 6, s_tag_id = None,
              s_group_id = ''g1'', s_created_by = ''u2'', s_created_at = 20\<rparr>"

definition supply3 :: "int supply_row" where
  "supply3 = \<lparr>s_id = ''s3'', s_name = ''Ron'', s_quantity = 1, s_cost = 8,
              s_sale_price = 12, s_market_price = 11, s_tag_id = Some ''t2'',
              s_group_id = ''g2'', s_created_by = ''u2'', s_created_at = 30\<rparr>"

definition example_db :: "int database" where
  "example_db =
     \<lparr>groups = [group1, group2],
      user_groups = [\<lparr>ug_user_id = ''u1'', ug_group_id = ''g1'', ug_role = ''admin''\<rparr>,
                     \<lparr>ug_user_id = ''u2'', ug_group_id = ''g2'', ug_role = ''admin''\<rparr>,
                     \<lparr>ug_user_id = ''u2'', ug_group_id = ''g1'', ug_role = ''member''\<rparr>],
      tags = [tag1, tag2],
      supplies = [supply1, supply2, supply3]\<rparr>"

text \<open>What is left of \<open>example_db\<close> when \<open>g1\<close> is deleted.\<close>

definition without_group1 :: "int database" where
  "without_group1 =
     \<lparr>groups = [group2],
      user_groups = [\<lparr>ug_user_id = ''u2'', ug_group_id = ''g2'', ug_role = ''admin''\<rparr>],
      tags = [tag2],
      supplies = [supply3]\<rparr>"

text \<open>The cards of \<open>g1\<close> on the groups page of \<open>u1\<close> and of \<open>u2\<close>, and the groups that the
  supplies page offers to \<open>u2\<close>.\<close>

definition card1_of_u1 :: group_view where
  "card1_of_u1 = \<lparr>gv_group = group1, gv_user_groups = [''admin'']\<rparr>"

definition card1_of_u2 :: group_view where
  "card1_of_u2 = \<lparr>gv_group = group1, gv_user_groups = [''member'']\<rparr>"

definition choices_of_u2 :: "group_choice list" where
  "choices_of_u2 = [\<lparr>gc_id = ''g2'', gc_name = ''Bar''\<rparr>, \<lparr>gc_id = ''g1'', gc_name = ''Cocina''\<rparr>]"

text \<open>A filled-in supply form for group \<open>g2\<close>, with and without the tag of group \<open>g1\<close>,
  and the row that the accepting backend stores for it.\<close>

definition form_tag1_group2 :: "int supply_form" where
  "form_tag1_group2 =
     \<lparr>fd_name = ''Sal'', fd_quantity = 3, fd_cost = 1, fd_sale_price = 2, fd_market_price = 2,
      fd_tag_id = ''t1'', fd_group_id = ''g2''\<rparr>"

definition form_untagged_group2 :: "int supply_form" where
  "form_untagged_group2 =
     \<lparr>fd_name = ''Sal'', fd_quantity = 3, fd_cost = 1, fd_sale_price = 2, fd_market_price = 2,
      fd_tag_id = [], fd_group_id = ''g2''\<rparr>"

definition new_row :: "uuid option \<Rightarrow> uuid \<Rightarrow> int supply_row" where
  "new_row tag creator =
     \<lparr>s_id = ''id-new'', s_name = ''Sal'', s_quantity = 3, s_cost = 1, s_sale_price = 2,
      s_market_price = 2, s_tag_id = tag, s_group_id = ''g2'', s_created_by = creator,
      s_created_at = 100\<rparr>"

section \<open>Auxiliary facts\<close>

lemma not_in_image_iff: "y \<notin> f ` S \<longleftrightarrow> (\<forall>x \<in> S. f x \<noteq> y)"
  by auto

lemma profit_reducer_eq: "profit_reducer = (\<lambda>acc supply. acc + calculateProfit supply)"
  by (intro ext) (simp add: profit_reducer_def calculateProfit_def)

lemma member_group_ids_iff: "g \<in> set (member_group_ids db user) \<longleftrightarrow> is_member db g user"
  by (auto simp: is_member_def member_group_ids_def)

lemma group_ids_of_answered:
  "denies bk user (SelectUserGroups user) db = None \<Longrightarrow>
   group_ids_of (select_user_groups bk user user db) = member_group_ids db user"
  by (simp add: group_ids_of_def select_user_groups_def member_group_ids_def)

lemma group_ids_of_member:
  "g \<in> set (group_ids_of (select_user_groups bk user user db)) \<Longrightarrow> is_member db g user"
  by (auto simp: group_ids_of_def select_user_groups_def is_member_def split: option.splits)

lemma group_ids_of_none:
  assumes "\<forall>g. \<not> is_member db g user"
  shows "group_ids_of (select_user_groups bk user user db) = []"
proof -
  have "h \<notin> set (group_ids_of (select_user_groups bk user user db))" for h
    using assms group_ids_of_member [of h bk user db] by blast
  then show ?thesis
    by (cases "group_ids_of (select_user_groups bk user user db)") auto
qed

lemma handleSubmit_outcome:
  "Supplies_handleSubmit bk user editingId fd db =
     (case denies bk user (submit_request user editingId fd) db of
        Some err \<Rightarrow> (Failed err, db)
      | None \<Rightarrow>
          (Succeeded,
           if truthy editingId
           then db\<lparr>supplies :=
                  map (\<lambda>s. if s_id s = the editingId then apply_payload (payload_of fd) s else s)
                    (supplies db)\<rparr>
           else db\<lparr>supplies := supplies db @
                 [\<lparr>s_id = new_id bk db, s_name = fd_name fd, s_quantity = fd_quantity fd,
                   s_cost = fd_cost fd, s_sale_price = fd_sale_price fd,
                   s_market_price = fd_market_price fd, s_tag_id = or_null (fd_tag_id fd),
                   s_group_id = fd_group_id fd, s_created_by = user,
                   s_created_at = now bk db\<rparr>]\<rparr>))"
  by (simp add: Supplies_handleSubmit_def submit_request_def update_supply_def insert_supply_def
      payload_of_def split: option.splits)

lemma order_sorted:
  "sorted_wrt (\<lambda>a b. s_created_at b \<le> s_created_at a) (order_created_at_desc rows)"
  unfolding order_created_at_desc_def sorted_wrt_rev
  using sorted_sort_key[of s_created_at rows] by (simp add: sorted_map)

lemma order_set: "set (order_created_at_desc rows) = set rows"
  by (simp add: order_created_at_desc_def)

lemma update_keeps_columns:
  "map (\<lambda>s. (s_id s, s_created_by s, s_created_at s))
     (map (\<lambda>s. if s_id s = e then apply_payload p s else s) rows) =
   map (\<lambda>s. (s_id s, s_created_by s, s_created_at s)) rows"
  by (induction rows) (simp_all add: apply_payload_def)

lemma update_keeps_other_rows:
  "filter (\<lambda>s. s_id s \<noteq> e) (map (\<lambda>s. if s_id s = e then apply_payload p s else s) rows) =
   filter (\<lambda>s. s_id s \<noteq> e) rows"
  by (induction rows) (simp_all add: apply_payload_def)



section \<open>Profit\<close>




section \<open>Creating a group\<close>

text \<open>
  C1, as the code has it. \<^verbatim>\<open>handleSubmit\<close> of the groups page sends two requests, the group
  insert and then the insert of the creator's \<open>admin\<close> membership. When the group insert is
  refused, the error is reported and neither row is written. When the group insert is
  accepted and the membership insert is refused, the error is reported and the group
  stays, with no membership: the two writes are not one atomic step, and nothing undoes
  the first. When both are accepted the creation succeeds and both rows exist: the creator
  is a member with role \<open>admin\<close>, and the membership query of \<^verbatim>\<open>loadGroups\<close> returns the
  new group with that role immediately afterwards.
\<close>

theorem Groups_handleSubmit_two_requests:
  "(denies bk user (InsertGroup (gf_name fd) (gf_description fd) user) db = Some e \<longrightarrow>
      Groups_handleSubmit bk user fd db = (Failed e, db)) \<and>
   (denies bk user (InsertGroup (gf_name fd) (gf_description fd) user) db = None \<and>
    denies bk user (InsertUserGroup user (new_id bk db) ''admin'') (with_group bk user fd db) =
      Some e \<longrightarrow>
      Groups_handleSubmit bk user fd db = (Failed e, with_group bk user fd db) \<and>
      user_groups (with_group bk user fd db) = user_groups db) \<and>
   (denies bk user (InsertGroup (gf_name fd) (gf_description fd) user) db = None \<and>
    denies bk user (InsertUserGroup user (new_id bk db) ''admin'') (with_group bk user fd db) =
      None \<longrightarrow>
      Groups_handleSubmit bk user fd db = (Succeeded, with_group_and_membership bk user fd db) \<and>
      created_group bk user fd db \<in> set (groups (with_group_and_membership bk user fd db)) \<and>
      is_member (with_group_and_membership bk user fd db) (new_id bk db) user \<and>
      ''admin'' \<in> set (roles_of user (new_id bk db) (with_group_and_membership bk user fd db)) \<and>
      (denies bk user (SelectGroups user) (with_group_and_membership bk user fd db) = None \<longrightarrow>
         (\<exists>v \<in> set (snd (Groups_loadGroups bk user shown
                             (with_group_and_membership bk user fd db))).
            gv_group v = created_group bk user fd db \<and> ''admin'' \<in> set (gv_user_groups v))))"
proof (intro conjI impI)
  let ?new = "created_group bk user fd db"
  let ?m = "creator_membership bk user db"
  let ?db2 = "with_group_and_membership bk user fd db"
  assume "denies bk user (InsertGroup (gf_name fd) (gf_description fd) user) db = Some e"
  then show "Groups_handleSubmit bk user fd db = (Failed e, db)"
    by (simp add: Groups_handleSubmit_def insert_group_def)
next
  assume "denies bk user (InsertGroup (gf_name fd) (gf_description fd) user) db = None \<and>
    denies bk user (InsertUserGroup user (new_id bk db) ''admin'') (with_group bk user fd db) =
      Some e"
  then show "Groups_handleSubmit bk user fd db = (Failed e, with_group bk user fd db)"
    by (simp add: Groups_handleSubmit_def insert_group_def insert_user_group_def Let_def
        with_group_def created_group_def)
next
  show "user_groups (with_group bk user fd db) = user_groups db"
    by (simp add: with_group_def)
next
  let ?new = "created_group bk user fd db"
  let ?m = "creator_membership bk user db"
  let ?db2 = "with_group_and_membership bk user fd db"
  assume ok: "denies bk user (InsertGroup (gf_name fd) (gf_description fd) user) db = None \<and>
    denies bk user (InsertUserGroup user (new_id bk db) ''admin'') (with_group bk user fd db) =
      None"
  then show "Groups_handleSubmit bk user fd db = (Succeeded, ?db2)"
    by (simp add: Groups_handleSubmit_def insert_group_def insert_user_group_def Let_def
        with_group_def with_group_and_membership_def created_group_def creator_membership_def)
  show g: "?new \<in> set (groups ?db2)"
    by (simp add: with_group_and_membership_def)
  have m: "?m \<in> set (user_groups ?db2)"
    by (simp add: with_group_and_membership_def)
  have mf: "ug_user_id ?m = user" "ug_group_id ?m = new_id bk db" "ug_role ?m = ''admin''"
    by (simp_all add: creator_membership_def)
  show member: "is_member ?db2 (new_id bk db) user"
    unfolding is_member_def using m mf by (intro bexI [of _ ?m]) simp_all
  show role: "''admin'' \<in> set (roles_of user (new_id bk db) ?db2)"
    using m mf by (force simp: roles_of_def intro: rev_image_eqI)
  show "\<exists>v \<in> set (snd (Groups_loadGroups bk user shown ?db2)).
            gv_group v = ?new \<and> ''admin'' \<in> set (gv_user_groups v)"
    if sel: "denies bk user (SelectGroups user) ?db2 = None"
  proof -
    have id: "g_id ?new = new_id bk db" by (simp add: created_group_def)
    let ?v = "\<lparr>gv_group = ?new, gv_user_groups = roles_of user (g_id ?new) ?db2\<rparr>"
    have ne: "roles_of user (g_id ?new) ?db2 \<noteq> []" using role id by auto
    have "?v \<in> set (snd (Groups_loadGroups bk user shown ?db2))"
      using sel g ne by (auto simp: Groups_loadGroups_def select_groups_def)
    then show ?thesis using role id by (intro bexI [of _ ?v]) simp_all
  qed
qed

text \<open>Creating the group \<open>Bodega\<close> in the empty database: the backend that refuses
  everything writes nothing, the backend that refuses membership inserts writes the group
  alone, and the accepting backend writes both rows.\<close>

theorem Groups_handleSubmit_two_requests_witness:
  "Groups_handleSubmit refusing_all ''u1'' bodega_form (empty_db :: int database) =
     (Failed ''request failed'', empty_db) \<and>
   Groups_handleSubmit refusing_memberships ''u1'' bodega_form (empty_db :: int database) =
     (Failed ''request failed'',
      \<lparr>groups = [bodega], user_groups = [], tags = [], supplies = []\<rparr>) \<and>
   Groups_handleSubmit accepting ''u1'' bodega_form (empty_db :: int database) =
     (Succeeded,
      \<lparr>groups = [bodega], user_groups = [bodega_admin], tags = [], supplies = []\<rparr>) \<and>
   is_member (\<lparr>groups = [bodega], user_groups = [bodega_admin], tags = [],
               supplies = []\<rparr> :: int database) ''id-new'' ''u1''"
proof -
  let ?db = "empty_db :: int database"
  have g: "with_group b ''u1'' bodega_form ?db =
      \<lparr>groups = [bodega], user_groups = [], tags = [], supplies = []\<rparr>"
    if "new_id b ?db = ''id-new''" "now b ?db = 100" for b :: "int backend"
    using that
    by (simp add: with_group_def created_group_def bodega_form_def bodega_def empty_db_def)
  have gm: "with_group_and_membership b ''u1'' bodega_form ?db =
      \<lparr>groups = [bodega], user_groups = [bodega_admin], tags = [], supplies = []\<rparr>"
    if "new_id b ?db = ''id-new''" "now b ?db = 100" for b :: "int backend"
    using that
    by (simp add: with_group_and_membership_def created_group_def creator_membership_def
        bodega_form_def bodega_def bodega_admin_def empty_db_def)
  have first: "Groups_handleSubmit refusing_all ''u1'' bodega_form ?db =
      (Failed ''request failed'', empty_db)"
    using Groups_handleSubmit_two_requests
      [of refusing_all "''u1''" bodega_form ?db "''request failed''"]
    by (simp add: refusing_all_def)
  have second: "Groups_handleSubmit refusing_memberships ''u1'' bodega_form ?db =
      (Failed ''request failed'',
       \<lparr>groups = [bodega], user_groups = [], tags = [], supplies = []\<rparr>)"
    using Groups_handleSubmit_two_requests
      [of refusing_memberships "''u1''" bodega_form ?db "''request failed''"]
      g [of refusing_memberships]
    by (simp add: refusing_memberships_def)
  have third: "Groups_handleSubmit accepting ''u1'' bodega_form ?db =
      (Succeeded,
       \<lparr>groups = [bodega], user_groups = [bodega_admin], tags = [], supplies = []\<rparr>) \<and>
      is_member (\<lparr>groups = [bodega], user_groups = [bodega_admin], tags = [],
                  supplies = []\<rparr> :: int database) ''id-new'' ''u1''"
    using Groups_handleSubmit_two_requests [of accepting "''u1''" bodega_form ?db]
      gm [of accepting]
    by (simp add: accepting_def)
  show ?thesis using first second third by blast
qed

text \<open>
  C1 as stated fails: when the backend accepts the group insert and refuses the membership
  insert, \<^verbatim>\<open>handleSubmit\<close> reports the error and leaves the new group in the database with
  no membership at all.
\<close>

theorem Groups_handleSubmit_not_atomic:
  "Groups_handleSubmit refusing_memberships ''u1''
     \<lparr>gf_name = ''Bodega'', gf_description = []\<rparr> (empty_db :: int database) =
     (Failed ''request failed'',
      \<lparr>groups = [\<lparr>g_id = ''id-new'', g_name = ''Bodega'', g_description = [],
                   g_created_by = ''u1'', g_created_at = 100\<rparr>],
       user_groups = [], tags = [], supplies = []\<rparr>)"
  by (simp add: Groups_handleSubmit_def insert_group_def insert_user_group_def
      refusing_memberships_def empty_db_def Let_def)

section \<open>Dashboard statistics\<close>

text \<open>
  What \<^verbatim>\<open>loadStats\<close> computes when the backend answers its four queries and the user is in
  a group: the counts are the numbers of supplies, groups and tags of the user's groups,
  and the total profit is the sum of the profits of those supplies, added up from the left
  in the arithmetic of the page, a falsy total shown as \<open>0\<close>.
\<close>

lemma loadStats_answered:
  fixes js :: "('n::{plus,minus,times,zero}) numbers"
  assumes "denies bk user (SelectUserGroups user) db = None"
    and "denies bk user (SelectSupplies (member_group_ids db user)) db = None"
    and "denies bk user (CountGroups (member_group_ids db user)) db = None"
    and "denies bk user (CountTags (member_group_ids db user)) db = None"
    and "is_member db g user"
  shows "Dashboard_loadStats js bk user shown db =
        (None,
         \<lparr>totalSupplies = length (filter (\<lambda>s. is_member db (s_group_id s) user) (supplies db)),
          totalGroups = length (filter (\<lambda>g. is_member db (g_id g) user) (groups db)),
          totalTags = length (filter (\<lambda>t. is_member db (t_group_id t) user) (tags db)),
          totalProfit = number_or_zero js
            (foldl (\<lambda>acc s. acc + calculateProfit s) 0
               (filter (\<lambda>s. is_member db (s_group_id s) user) (supplies db)))\<rparr>)"
proof -
  let ?ids = "member_group_ids db user"
  have ids: "group_ids_of (select_user_groups bk user user db) = ?ids"
    by (rule group_ids_of_answered [OF assms(1)])
  have "g \<in> set ?ids" using assms(5) by (simp add: member_group_ids_iff)
  then have "?ids \<noteq> []" by auto
  then show ?thesis using assms(2-4) ids
    by (simp add: Dashboard_loadStats_def Let_def select_supplies_def count_groups_def
        count_tags_def count_or_zero_def profit_reducer_eq member_group_ids_iff)
qed

text \<open>
  C3 fails on the code in two ways. \<^verbatim>\<open>loadStats\<close> never inspects the \<^verbatim>\<open>error\<close> of an answer
  (the other loaders do, with \<^verbatim>\<open>if (error) throw error\<close>), so a refused query is shown as
  zero and its error toast is never reached: with the supplies query refused, the
  dashboard of \<open>u1\<close> shows no supply and no profit beside one group and one tag, where the
  database has two supplies with the total profit 2. And with no group id the function
  returns before it sets any stat: once the group \<open>g1\<close> is gone, \<open>u1\<close> is in no group and a
  reload leaves the stats of before, 2 supplies and profit 2, where all four are to be
  zero.
\<close>

theorem Dashboard_loadStats_wrong_stats:
  "Dashboard_loadStats whole_numbers accepting ''u1'' initial_stats example_db =
     (None, \<lparr>totalSupplies = 2, totalGroups = 1, totalTags = 1, totalProfit = 2\<rparr>) \<and>
   Dashboard_loadStats whole_numbers refusing_supplies ''u1'' initial_stats example_db =
     (None, \<lparr>totalSupplies = 0, totalGroups = 1, totalTags = 1, totalProfit = 0\<rparr>) \<and>
   member_group_ids without_group1 ''u1'' = [] \<and>
   Dashboard_loadStats whole_numbers accepting ''u1''
     \<lparr>totalSupplies = 2, totalGroups = 1, totalTags = 1, totalProfit = 2\<rparr> without_group1 =
     (None, \<lparr>totalSupplies = 2, totalGroups = 1, totalTags = 1, totalProfit = 2\<rparr>)"
  by (simp add: Dashboard_loadStats_def Let_def group_ids_of_def select_user_groups_def
      select_supplies_def count_groups_def count_tags_def count_or_zero_def number_or_zero_def
      profit_reducer_def member_group_ids_def whole_numbers_def accepting_def
      refusing_supplies_def initial_stats_def example_db_def without_group1_def group1_def
      group2_def tag1_def tag2_def supply1_def supply2_def supply3_def)

section \<open>Deleting a group\<close>

text \<open>
  C4. A group is deleted from its card on the groups page, and the delete button is
  rendered only for the user who created the group: for every other user no handler runs,
  no request is sent and nothing changes, which is how the page forbids the deletion. For
  the creator the deletion succeeds exactly when the user confirms and the backend accepts
  the request; then, with the cascade of the backend, no group, tag, supply or membership
  of that group remains, and the rows of the other groups are the same as before. In every
  other case nothing changes. The card is one of the groups that \<^verbatim>\<open>loadGroups\<close> lists, each a
  row of the database of which the user is a member.
\<close>

theorem Groups_delete_by_creator_only:
  assumes "Groups_deleteButton_onClick bk user shownGroup confirmed db = (out, db')"
  shows
    "(g_created_by (gv_group shownGroup) \<noteq> user \<longrightarrow> out = NotRendered \<and> db' = db) \<and>
     (out = Succeeded \<longleftrightarrow>
        g_created_by (gv_group shownGroup) = user \<and> confirmed \<and>
        denies bk user (DeleteGroup (g_id (gv_group shownGroup))) db = None) \<and>
     (out = Succeeded \<longrightarrow>
        (\<forall>g \<in> set (groups db'). g_id g \<noteq> g_id (gv_group shownGroup)) \<and>
        (\<forall>t \<in> set (tags db'). t_group_id t \<noteq> g_id (gv_group shownGroup)) \<and>
        (\<forall>s \<in> set (supplies db'). s_group_id s \<noteq> g_id (gv_group shownGroup)) \<and>
        (\<forall>m \<in> set (user_groups db'). ug_group_id m \<noteq> g_id (gv_group shownGroup)) \<and>
        set (groups db') = {g \<in> set (groups db). g_id g \<noteq> g_id (gv_group shownGroup)} \<and>
        set (tags db') = {t \<in> set (tags db). t_group_id t \<noteq> g_id (gv_group shownGroup)} \<and>
        set (supplies db') =
          {s \<in> set (supplies db). s_group_id s \<noteq> g_id (gv_group shownGroup)} \<and>
        set (user_groups db') =
          {m \<in> set (user_groups db). ug_group_id m \<noteq> g_id (gv_group shownGroup)}) \<and>
     (out \<noteq> Succeeded \<longrightarrow> db' = db) \<and>
     (Groups_loadGroups bk user shown db = (None, cards) \<and> shownGroup \<in> set cards \<longrightarrow>
        gv_group shownGroup \<in> set (groups db) \<and>
        is_member db (g_id (gv_group shownGroup)) user)"
proof -
  have page: "gv_group shownGroup \<in> set (groups db) \<and>
      is_member db (g_id (gv_group shownGroup)) user"
    if "Groups_loadGroups bk user shown db = (None, cards) \<and> shownGroup \<in> set cards"
  proof -
    from that have "shownGroup \<in> set (map (\<lambda>g. \<lparr>gv_group = g,
          gv_user_groups = roles_of user (g_id g) db\<rparr>)
        (filter (\<lambda>g. roles_of user (g_id g) db \<noteq> []) (groups db)))"
      by (auto simp: Groups_loadGroups_def select_groups_def split: option.splits sum.splits)
    then obtain g where g: "g \<in> set (groups db)" "roles_of user (g_id g) db \<noteq> []"
      "gv_group shownGroup = g"
      by auto
    from g(2) obtain m where "m \<in> set (user_groups db)" "ug_user_id m = user"
      "ug_group_id m = g_id g"
      by (auto simp: roles_of_def filter_empty_conv)
    then have "is_member db (g_id g) user" by (auto simp: is_member_def)
    then show ?thesis using g by simp
  qed
  have rest:
    "(g_created_by (gv_group shownGroup) \<noteq> user \<longrightarrow> out = NotRendered \<and> db' = db) \<and>
     (out = Succeeded \<longleftrightarrow>
        g_created_by (gv_group shownGroup) = user \<and> confirmed \<and>
        denies bk user (DeleteGroup (g_id (gv_group shownGroup))) db = None) \<and>
     (out = Succeeded \<longrightarrow>
        (\<forall>g \<in> set (groups db'). g_id g \<noteq> g_id (gv_group shownGroup)) \<and>
        (\<forall>t \<in> set (tags db'). t_group_id t \<noteq> g_id (gv_group shownGroup)) \<and>
        (\<forall>s \<in> set (supplies db'). s_group_id s \<noteq> g_id (gv_group shownGroup)) \<and>
        (\<forall>m \<in> set (user_groups db'). ug_group_id m \<noteq> g_id (gv_group shownGroup)) \<and>
        set (groups db') = {g \<in> set (groups db). g_id g \<noteq> g_id (gv_group shownGroup)} \<and>
        set (tags db') = {t \<in> set (tags db). t_group_id t \<noteq> g_id (gv_group shownGroup)} \<and>
        set (supplies db') =
          {s \<in> set (supplies db). s_group_id s \<noteq> g_id (gv_group shownGroup)} \<and>
        set (user_groups db') =
          {m \<in> set (user_groups db). ug_group_id m \<noteq> g_id (gv_group shownGroup)}) \<and>
     (out \<noteq> Succeeded \<longrightarrow> db' = db)"
    using assms
    by (auto simp: Groups_deleteButton_onClick_def Groups_handleDelete_def delete_group_def
        delete_button_rendered_def split: if_splits option.splits)
  show ?thesis using rest page by blast
qed

text \<open>The groups page of \<open>u1\<close> lists the card of \<open>g1\<close>, and its creator \<open>u1\<close> deletes
  the group from that card: its tag, its two supplies and its two memberships go with it. For the member \<open>u2\<close>, who did not create \<open>g1\<close>, the
  card has no delete button and nothing changes.\<close>

theorem Groups_delete_by_creator_only_witness:
  "Groups_loadGroups accepting ''u1'' [] example_db = (None, [card1_of_u1]) \<and>
   gv_group card1_of_u1 \<in> set (groups example_db) \<and>
   is_member example_db (g_id (gv_group card1_of_u1)) ''u1'' \<and>
   g_created_by (gv_group card1_of_u1) = ''u1'' \<and>
   Groups_deleteButton_onClick accepting ''u1'' card1_of_u1 True example_db =
     (Succeeded, without_group1) \<and>
   ''g1'' \<notin> g_id ` set (groups without_group1) \<and>
   ''g1'' \<notin> t_group_id ` set (tags without_group1) \<and>
   ''g1'' \<notin> s_group_id ` set (supplies without_group1) \<and>
   ''g1'' \<notin> ug_group_id ` set (user_groups without_group1) \<and>
   g_created_by (gv_group card1_of_u2) \<noteq> ''u2'' \<and>
   Groups_deleteButton_onClick accepting ''u2'' card1_of_u2 True example_db =
     (NotRendered, example_db)"
proof -
  have id: "g_id (gv_group card1_of_u1) = ''g1''"
    by (simp add: card1_of_u1_def group1_def)
  have run: "Groups_deleteButton_onClick accepting ''u1'' card1_of_u1 True example_db =
      (Succeeded, without_group1)"
    by (simp add: Groups_deleteButton_onClick_def delete_button_rendered_def
        Groups_handleDelete_def delete_group_def accepting_def card1_of_u1_def example_db_def
        without_group1_def group1_def group2_def tag1_def tag2_def supply1_def supply2_def
        supply3_def)
  have gone: "''g1'' \<notin> g_id ` set (groups without_group1) \<and>
      ''g1'' \<notin> t_group_id ` set (tags without_group1) \<and>
      ''g1'' \<notin> s_group_id ` set (supplies without_group1) \<and>
      ''g1'' \<notin> ug_group_id ` set (user_groups without_group1)"
    unfolding not_in_image_iff
    using Groups_delete_by_creator_only [OF run] unfolding id by blast
  have load: "Groups_loadGroups accepting ''u1'' [] example_db = (None, [card1_of_u1])"
    by (simp add: Groups_loadGroups_def select_groups_def roles_of_def accepting_def
        card1_of_u1_def example_db_def group1_def group2_def)
  have listed: "gv_group card1_of_u1 \<in> set (groups example_db) \<and>
      is_member example_db (g_id (gv_group card1_of_u1)) ''u1''"
    using load Groups_delete_by_creator_only [OF run, of "[]" "[card1_of_u1]"] by simp
  have creator: "g_created_by (gv_group card1_of_u1) = ''u1''"
    by (simp add: card1_of_u1_def group1_def)
  have other: "g_created_by (gv_group card1_of_u2) \<noteq> ''u2''"
    by (simp add: card1_of_u2_def group1_def)
  have "Groups_deleteButton_onClick accepting ''u2'' card1_of_u2 True example_db =
      (fst (Groups_deleteButton_onClick accepting ''u2'' card1_of_u2 True example_db),
       snd (Groups_deleteButton_onClick accepting ''u2'' card1_of_u2 True example_db))"
    by simp
  from Groups_delete_by_creator_only [OF this] other
  have "fst (Groups_deleteButton_onClick accepting ''u2'' card1_of_u2 True example_db) =
      NotRendered \<and>
      snd (Groups_deleteButton_onClick accepting ''u2'' card1_of_u2 True example_db) =
      example_db"
    by blast
  then have none: "Groups_deleteButton_onClick accepting ''u2'' card1_of_u2 True example_db =
      (NotRendered, example_db)"
    by (simp add: prod_eq_iff)
  show ?thesis using load listed creator run gone other none by blast
qed

section \<open>Saving a supply\<close>

text \<open>
  C5, as the code has it. \<^verbatim>\<open>handleSubmit\<close> of the supplies page makes no check of the tag
  against the group, on create and on update alike: it succeeds exactly when the backend
  accepts its request, has no validation error of its own, and stores the tag and the
  group as they were entered, whatever the group of the tag. What the page does is to
  offer as tag choices the tags that \<^verbatim>\<open>loadTags\<close> loads for the selected group, all of which
  belong to that group.
\<close>

theorem Supplies_handleSubmit_forwards_tag:
  assumes "Supplies_handleSubmit bk user editingId fd db = (out, db')"
  shows
    "(out = Succeeded \<longleftrightarrow> denies bk user (submit_request user editingId fd) db = None) \<and>
     (out \<noteq> Succeeded \<longrightarrow>
        out = Failed (the (denies bk user (submit_request user editingId fd) db)) \<and> db' = db) \<and>
     (out = Succeeded \<and> \<not> truthy editingId \<longrightarrow>
        s_tag_id (last (supplies db')) = or_null (fd_tag_id fd) \<and>
        s_group_id (last (supplies db')) = fd_group_id fd \<and>
        butlast (supplies db') = supplies db) \<and>
     (out = Succeeded \<and> truthy editingId \<longrightarrow>
        (\<forall>s \<in> set (supplies db'). s_id s = the editingId \<longrightarrow>
           s_tag_id s = or_null (fd_tag_id fd) \<and> s_group_id s = fd_group_id fd)) \<and>
     (Supplies_loadTags bk user groupId shown db = (None, choices) \<longrightarrow>
        (\<forall>t \<in> set choices. t_group_id t = groupId \<and> t \<in> set (tags db)))"
  using assms
  by (auto simp: handleSubmit_outcome payload_of_def apply_payload_def Supplies_loadTags_def
      select_tags_def split: option.splits if_splits)

text \<open>A new supply of group \<open>g2\<close> with no tag, and the tag choices for \<open>g2\<close>.\<close>

theorem Supplies_handleSubmit_forwards_tag_witness:
  "Supplies_handleSubmit accepting ''u2'' None form_untagged_group2 example_db =
     (Succeeded, example_db\<lparr>supplies := [supply1, supply2, supply3, new_row None ''u2'']\<rparr>) \<and>
   Supplies_loadTags accepting ''u2'' ''g2'' [] example_db = (None, [tag2]) \<and>
   t_group_id tag2 = ''g2'' \<and> tag2 \<in> set (tags example_db)"
proof -
  have run: "Supplies_handleSubmit accepting ''u2'' None form_untagged_group2 example_db =
     (Succeeded, example_db\<lparr>supplies := [supply1, supply2, supply3, new_row None ''u2'']\<rparr>)"
    by (simp add: handleSubmit_outcome submit_request_def truthy_def accepting_def
        form_untagged_group2_def new_row_def or_null_def example_db_def)
  have load: "Supplies_loadTags accepting ''u2'' ''g2'' [] example_db = (None, [tag2])"
    by (simp add: Supplies_loadTags_def select_tags_def accepting_def example_db_def tag1_def
        tag2_def)
  show ?thesis
    using run load
      Supplies_handleSubmit_forwards_tag [OF run, of "''g2''" "[]" "[tag2]"]
    by simp
qed

text \<open>
  C5 as stated fails: \<open>u2\<close> is a member of both groups, which are the groups that the page
  offers to \<open>u2\<close>, the tag \<open>t1\<close> belongs to \<open>g1\<close>, and the form with tag \<open>t1\<close> and group \<open>g2\<close>
  is saved, as a new supply and as an update of the supply \<open>s3\<close>.
\<close>

theorem Supplies_handleSubmit_cross_group_tag:
  "t_id tag1 = ''t1'' \<and> t_group_id tag1 = ''g1'' \<and> tags example_db = [tag1, tag2] \<and>
   Supplies_loadGroups accepting ''u2'' [] example_db = (None, choices_of_u2) \<and>
   Supplies_form_onSubmit whole_numbers accepting ''u2'' choices_of_u2 None form_tag1_group2
       example_db =
     (Succeeded,
      example_db\<lparr>supplies := [supply1, supply2, supply3, new_row (Some ''t1'') ''u2'']\<rparr>) \<and>
   Supplies_form_onSubmit whole_numbers accepting ''u2'' choices_of_u2 (Some ''s3'')
       form_tag1_group2 example_db =
     (Succeeded,
      example_db\<lparr>supplies :=
        [supply1, supply2,
         \<lparr>s_id = ''s3'', s_name = ''Sal'', s_quantity = 3, s_cost = 1, s_sale_price = 2,
          s_market_price = 2, s_tag_id = Some ''t1'', s_group_id = ''g2'',
          s_created_by = ''u2'', s_created_at = 30\<rparr>]\<rparr>)"
  by (simp add: Supplies_form_onSubmit_def form_valid_def number_input_valid_def
      whole_numbers_def choices_of_u2_def Supplies_loadGroups_def select_member_groups_def
      embedded_group_def List.map_filter_def group1_def group2_def
      handleSubmit_outcome submit_request_def truthy_def accepting_def form_tag1_group2_def
      new_row_def or_null_def example_db_def tag1_def supply1_def supply2_def supply3_def
      apply_payload_def payload_of_def)



text \<open>
  C9. On create and on update, \<^verbatim>\<open>handleSubmit\<close> writes no tag (\<open>null\<close>) for an empty
  \<^verbatim>\<open>tag_id\<close> of the form and the tag id itself otherwise. When the backend accepts the
  request, a create appends one row to the rows of before, and that row has this tag; an
  update gives this tag to the rows with the edited id and leaves the tag of every other
  row. When the backend refuses, nothing is written. So no row that \<^verbatim>\<open>handleSubmit\<close> writes
  holds the empty string as its tag: a table without such a row has none after the call.
\<close>

theorem Supplies_handleSubmit_tag_null:
  assumes "Supplies_handleSubmit bk user editingId fd db = (out, db')"
  shows
    "(denies bk user (submit_request user editingId fd) db = None \<and> \<not> truthy editingId \<longrightarrow>
        out = Succeeded \<and>
        length (supplies db') = Suc (length (supplies db)) \<and>
        butlast (supplies db') = supplies db \<and>
        s_tag_id (last (supplies db')) =
          (if fd_tag_id fd = [] then None else Some (fd_tag_id fd))) \<and>
     (denies bk user (submit_request user editingId fd) db = None \<and> truthy editingId \<longrightarrow>
        out = Succeeded \<and>
        map s_tag_id (supplies db') =
          map (\<lambda>s. if s_id s = the editingId
                    then (if fd_tag_id fd = [] then None else Some (fd_tag_id fd))
                    else s_tag_id s) (supplies db)) \<and>
     (denies bk user (submit_request user editingId fd) db \<noteq> None \<longrightarrow>
        out \<noteq> Succeeded \<and> db' = db) \<and>
     ((\<forall>s \<in> set (supplies db). s_tag_id s \<noteq> Some []) \<longrightarrow>
        (\<forall>s \<in> set (supplies db'). s_tag_id s \<noteq> Some []))"
proof -
  have tags_of: "map s_tag_id (map (\<lambda>s. if s_id s = e then apply_payload (payload_of fd) s
        else s) rows) =
      map (\<lambda>s. if s_id s = e then (if fd_tag_id fd = [] then None else Some (fd_tag_id fd))
        else s_tag_id s) rows" for e and rows :: "'a supply_row list"
    by (induction rows) (simp_all add: apply_payload_def payload_of_def or_null_def)
  have created: "out = Succeeded \<and>
        length (supplies db') = Suc (length (supplies db)) \<and>
        butlast (supplies db') = supplies db \<and>
        s_tag_id (last (supplies db')) =
          (if fd_tag_id fd = [] then None else Some (fd_tag_id fd))"
    if "denies bk user (submit_request user editingId fd) db = None \<and> \<not> truthy editingId"
    using that assms by (auto simp: handleSubmit_outcome payload_of_def or_null_def)
  have updated: "out = Succeeded \<and>
        map s_tag_id (supplies db') =
          map (\<lambda>s. if s_id s = the editingId
                    then (if fd_tag_id fd = [] then None else Some (fd_tag_id fd))
                    else s_tag_id s) (supplies db)"
    if "denies bk user (submit_request user editingId fd) db = None \<and> truthy editingId"
    using that assms tags_of [of "the editingId" "supplies db"]
    by (auto simp: handleSubmit_outcome)
  have refused: "out \<noteq> Succeeded \<and> db' = db"
    if "denies bk user (submit_request user editingId fd) db \<noteq> None"
    using that assms by (auto simp: handleSubmit_outcome)
  have clean: "\<forall>s \<in> set (supplies db'). s_tag_id s \<noteq> Some []"
    if "\<forall>s \<in> set (supplies db). s_tag_id s \<noteq> Some []"
    using that assms
    by (auto simp: handleSubmit_outcome payload_of_def or_null_def apply_payload_def
        split: option.splits if_splits)
  show ?thesis using created updated refused clean by blast
qed

text \<open>The untagged form, saved by \<open>u2\<close> as a new supply, whose row has no tag, and as an
  update of \<open>s1\<close>, which had the tag \<open>t1\<close> and has none afterwards, while \<open>s3\<close> keeps its
  tag \<open>t2\<close>; with the backend that refuses everything nothing is written.\<close>

theorem Supplies_handleSubmit_tag_null_witness:
  "fd_tag_id form_untagged_group2 = [] \<and>
   Supplies_handleSubmit accepting ''u2'' None form_untagged_group2 example_db =
     (Succeeded, example_db\<lparr>supplies := [supply1, supply2, supply3, new_row None ''u2'']\<rparr>) \<and>
   s_tag_id (last (supplies
     (example_db\<lparr>supplies := [supply1, supply2, supply3, new_row None ''u2'']\<rparr>))) = None \<and>
   map s_tag_id (supplies example_db) = [Some ''t1'', None, Some ''t2''] \<and>
   map s_tag_id (supplies (snd (Supplies_handleSubmit accepting ''u2'' (Some ''s1'')
                                  form_untagged_group2 example_db))) =
     [None, None, Some ''t2''] \<and>
   Some [] \<notin> s_tag_id ` set (supplies (snd (Supplies_handleSubmit accepting ''u2'' (Some ''s1'')
                                                form_untagged_group2 example_db))) \<and>
   Supplies_handleSubmit refusing_all ''u2'' None form_untagged_group2 example_db =
     (Failed ''request failed'', example_db)"
proof -
  have empty: "fd_tag_id form_untagged_group2 = []"
    by (simp add: form_untagged_group2_def)
  have accepted: "denies accepting u r example_db = None" for u r
    by (simp add: accepting_def)
  have table: "supplies example_db = [supply1, supply2, supply3]"
    by (simp add: example_db_def)
  have ids: "map s_id (supplies example_db) = [''s1'', ''s2'', ''s3'']"
    by (simp add: table supply1_def supply2_def supply3_def)
  have before: "map s_tag_id (supplies example_db) = [Some ''t1'', None, Some ''t2'']"
    by (simp add: table supply1_def supply2_def supply3_def)
  have clean: "\<forall>s \<in> set (supplies example_db). s_tag_id s \<noteq> Some []"
    by (simp add: table supply1_def supply2_def supply3_def)
  have run: "Supplies_handleSubmit accepting ''u2'' None form_untagged_group2 example_db =
     (Succeeded, example_db\<lparr>supplies := [supply1, supply2, supply3, new_row None ''u2'']\<rparr>)"
    by (simp add: handleSubmit_outcome submit_request_def truthy_def accepting_def
        form_untagged_group2_def new_row_def or_null_def example_db_def)
  have "s_tag_id (last (supplies
      (example_db\<lparr>supplies := [supply1, supply2, supply3, new_row None ''u2'']\<rparr>))) =
      (if fd_tag_id form_untagged_group2 = [] then None
       else Some (fd_tag_id form_untagged_group2))"
    using accepted Supplies_handleSubmit_tag_null [OF run] by (simp add: truthy_def)
  then have a: "s_tag_id (last (supplies
      (example_db\<lparr>supplies := [supply1, supply2, supply3, new_row None ''u2'']\<rparr>))) = None"
    using empty by simp
  let ?after = "snd (Supplies_handleSubmit accepting ''u2'' (Some ''s1'')
      form_untagged_group2 example_db)"
  have edit: "Supplies_handleSubmit accepting ''u2'' (Some ''s1'') form_untagged_group2
      example_db =
    (fst (Supplies_handleSubmit accepting ''u2'' (Some ''s1'') form_untagged_group2 example_db),
     ?after)"
    by simp
  have "map s_tag_id (supplies ?after) =
      map (\<lambda>s. if s_id s = the (Some ''s1'')
                then (if fd_tag_id form_untagged_group2 = [] then None
                      else Some (fd_tag_id form_untagged_group2))
                else s_tag_id s) (supplies example_db)"
    using accepted Supplies_handleSubmit_tag_null [OF edit] by (simp add: truthy_def)
  then have b: "map s_tag_id (supplies ?after) = [None, None, Some ''t2'']"
    unfolding table using empty by (simp add: supply1_def supply2_def supply3_def)
  have "\<forall>s \<in> set (supplies ?after). s_tag_id s \<noteq> Some []"
    using clean Supplies_handleSubmit_tag_null [OF edit] by blast
  then have c: "Some [] \<notin> s_tag_id ` set (supplies ?after)"
    unfolding not_in_image_iff by blast
  have refused: "Supplies_handleSubmit refusing_all ''u2'' None form_untagged_group2
      example_db = (Failed ''request failed'', example_db)"
    by (simp add: handleSubmit_outcome refusing_all_def)
  have "denies refusing_all ''u2'' (submit_request ''u2'' None form_untagged_group2)
      example_db \<noteq> None"
    by (simp add: refusing_all_def)
  then have d: "Failed ''request failed'' \<noteq> Succeeded \<and> example_db = example_db"
    using Supplies_handleSubmit_tag_null [OF refused] by blast
  show ?thesis using empty run a before b c refused d by blast
qed

text \<open>
  C10. An update of a supply writes the name, the quantity, the cost, the sale price, the
  market price, the tag and the group, and nothing else: the id, the creator and the
  creation time of every row are the same as before, the rows with another id are
  untouched, and so are the other three tables.
\<close>

theorem Supplies_handleSubmit_update_frame:
  assumes "editingId \<noteq> []"
    and "Supplies_handleSubmit bk user (Some editingId) fd db = (out, db')"
  shows
    "map (\<lambda>s. (s_id s, s_created_by s, s_created_at s)) (supplies db') =
       map (\<lambda>s. (s_id s, s_created_by s, s_created_at s)) (supplies db) \<and>
     filter (\<lambda>s. s_id s \<noteq> editingId) (supplies db') =
       filter (\<lambda>s. s_id s \<noteq> editingId) (supplies db) \<and>
     groups db' = groups db \<and> user_groups db' = user_groups db \<and> tags db' = tags db"
  using assms
  by (auto simp: handleSubmit_outcome truthy_def update_keeps_columns update_keeps_other_rows
      apply_payload_def split: option.splits)

text \<open>The supply \<open>s3\<close> of \<open>u2\<close>, edited by \<open>u1\<close>: the seven columns of the form are written,
  the id, the creator \<open>u2\<close> and the creation time stay.\<close>

theorem Supplies_handleSubmit_update_frame_witness:
  "Supplies_handleSubmit accepting ''u1'' (Some ''s3'') form_tag1_group2 example_db =
     (Succeeded,
      example_db\<lparr>supplies :=
        [supply1, supply2,
         \<lparr>s_id = ''s3'', s_name = ''Sal'', s_quantity = 3, s_cost = 1, s_sale_price = 2,
          s_market_price = 2, s_tag_id = Some ''t1'', s_group_id = ''g2'',
          s_created_by = ''u2'', s_created_at = 30\<rparr>]\<rparr>) \<and>
   map (\<lambda>s. (s_id s, s_created_by s, s_created_at s))
     (supplies (example_db\<lparr>supplies :=
        [supply1, supply2,
         \<lparr>s_id = ''s3'', s_name = ''Sal'', s_quantity = 3, s_cost = 1, s_sale_price = 2,
          s_market_price = 2, s_tag_id = Some ''t1'', s_group_id = ''g2'',
          s_created_by = ''u2'', s_created_at = 30\<rparr>]\<rparr>)) =
   map (\<lambda>s. (s_id s, s_created_by s, s_created_at s)) (supplies example_db)"
proof -
  have id: "''s3'' \<noteq> []" by simp
  have run: "Supplies_handleSubmit accepting ''u1'' (Some ''s3'') form_tag1_group2 example_db =
     (Succeeded,
      example_db\<lparr>supplies :=
        [supply1, supply2,
         \<lparr>s_id = ''s3'', s_name = ''Sal'', s_quantity = 3, s_cost = 1, s_sale_price = 2,
          s_market_price = 2, s_tag_id = Some ''t1'', s_group_id = ''g2'',
          s_created_by = ''u2'', s_created_at = 30\<rparr>]\<rparr>)"
    by (simp add: handleSubmit_outcome submit_request_def truthy_def accepting_def
        form_tag1_group2_def or_null_def example_db_def supply1_def supply2_def supply3_def
        apply_payload_def payload_of_def)
  show ?thesis
    using run Supplies_handleSubmit_update_frame [OF id run] by blast
qed

section \<open>Deleting a tag\<close>

text \<open>
  C7, as the code has it. \<^verbatim>\<open>handleDelete\<close> of the tags page has no \<open>NotFound\<close> outcome: it
  is cancelled when the user declines the dialog, fails with the backend's message when
  the backend refuses the request, and succeeds otherwise; the tags with that id are then
  removed and everything else stays. For an id that no tag has, this is a reported success
  that changes nothing. The creator of the tag is not consulted: a member of the tag's
  group who confirms, and whose request the backend accepts, deletes the tag, whoever
  created it.
\<close>

theorem Tags_handleDelete_any_member:
  assumes "Tags_handleDelete bk user confirmed tagId db = (out, db')"
  shows
    "(out = Succeeded \<longleftrightarrow> confirmed \<and> denies bk user (DeleteTag tagId) db = None) \<and>
     (\<not> confirmed \<longrightarrow> out = Cancelled) \<and>
     (confirmed \<and> denies bk user (DeleteTag tagId) db = Some e \<longrightarrow> out = Failed e) \<and>
     (out = Succeeded \<longrightarrow> db' = db\<lparr>tags := filter (\<lambda>t. t_id t \<noteq> tagId) (tags db)\<rparr>) \<and>
     (out = Succeeded \<and> (\<forall>t \<in> set (tags db). t_id t \<noteq> tagId) \<longrightarrow> db' = db) \<and>
     (out \<noteq> Succeeded \<longrightarrow> db' = db) \<and>
     (t \<in> set (tags db) \<and> t_id t = tagId \<and> is_member db (t_group_id t) user \<and> confirmed \<and>
      denies bk user (DeleteTag tagId) db = None \<longrightarrow>
        out = Succeeded \<and> t \<notin> set (tags db') \<and> (\<forall>t' \<in> set (tags db'). t_id t' \<noteq> tagId))"
proof -
  have absent: "filter (\<lambda>t. t_id t \<noteq> tagId) (tags db) = tags db"
    if "\<forall>t \<in> set (tags db). t_id t \<noteq> tagId"
    using that by (simp add: filter_id_conv)
  show ?thesis
    using assms absent
    by (auto simp: Tags_handleDelete_def delete_tag_def split: if_splits option.splits)
qed

text \<open>The tag \<open>t1\<close> belongs to the group \<open>g1\<close> and was created by \<open>u1\<close>; it is deleted by
  \<open>u2\<close>, a member of \<open>g1\<close>. It stays when \<open>u2\<close> declines the dialog and when the backend
  refuses the request.\<close>

theorem Tags_handleDelete_any_member_witness:
  "tag1 \<in> set (tags example_db) \<and> t_id tag1 = ''t1'' \<and> t_created_by tag1 = ''u1'' \<and>
   is_member example_db (t_group_id tag1) ''u2'' \<and>
   Tags_handleDelete accepting ''u2'' True ''t1'' example_db =
     (Succeeded, example_db\<lparr>tags := [tag2]\<rparr>) \<and>
   tag1 \<notin> set (tags (example_db\<lparr>tags := [tag2]\<rparr>)) \<and>
   Tags_handleDelete accepting ''u2'' False ''t1'' example_db = (Cancelled, example_db) \<and>
   Tags_handleDelete refusing_all ''u2'' True ''t1'' example_db =
     (Failed ''request failed'', example_db)"
proof -
  have listed: "tag1 \<in> set (tags example_db)" by (simp add: example_db_def)
  have id: "t_id tag1 = ''t1''" and creator: "t_created_by tag1 = ''u1''"
    by (simp_all add: tag1_def)
  have member: "is_member example_db (t_group_id tag1) ''u2''"
    by (simp add: is_member_def example_db_def tag1_def)
  have accepted: "denies accepting ''u2'' (DeleteTag ''t1'') example_db = None"
    by (simp add: accepting_def)
  have run: "Tags_handleDelete accepting ''u2'' True ''t1'' example_db =
     (Succeeded, example_db\<lparr>tags := [tag2]\<rparr>)"
    by (simp add: Tags_handleDelete_def delete_tag_def accepting_def example_db_def tag1_def
        tag2_def)
  have gone: "tag1 \<notin> set (tags (example_db\<lparr>tags := [tag2]\<rparr>))"
    using listed id member accepted Tags_handleDelete_any_member [OF run, of _ tag1]
    by blast
  have "Tags_handleDelete accepting ''u2'' False ''t1'' example_db =
      (fst (Tags_handleDelete accepting ''u2'' False ''t1'' example_db),
       snd (Tags_handleDelete accepting ''u2'' False ''t1'' example_db))"
    by simp
  from Tags_handleDelete_any_member [OF this]
  have "fst (Tags_handleDelete accepting ''u2'' False ''t1'' example_db) = Cancelled \<and>
      snd (Tags_handleDelete accepting ''u2'' False ''t1'' example_db) = example_db"
    by simp
  then have cancelled: "Tags_handleDelete accepting ''u2'' False ''t1'' example_db =
      (Cancelled, example_db)"
    by (simp add: prod_eq_iff)
  have no: "denies refusing_all ''u2'' (DeleteTag ''t1'') example_db = Some ''request failed''"
    by (simp add: refusing_all_def)
  have "Tags_handleDelete refusing_all ''u2'' True ''t1'' example_db =
      (fst (Tags_handleDelete refusing_all ''u2'' True ''t1'' example_db),
       snd (Tags_handleDelete refusing_all ''u2'' True ''t1'' example_db))"
    by simp
  from Tags_handleDelete_any_member [OF this, of "''request failed''"] no
  have "fst (Tags_handleDelete refusing_all ''u2'' True ''t1'' example_db) =
        Failed ''request failed'' \<and>
      snd (Tags_handleDelete refusing_all ''u2'' True ''t1'' example_db) = example_db"
    by simp
  then have refused: "Tags_handleDelete refusing_all ''u2'' True ''t1'' example_db =
      (Failed ''request failed'', example_db)"
    by (simp add: prod_eq_iff)
  show ?thesis using listed id creator member run gone cancelled refused by blast
qed

text \<open>
  C7 as stated fails: no tag of the example has the id \<open>t9\<close>, and deleting \<open>t9\<close> does not
  fail: it reports success and changes nothing.
\<close>

theorem Tags_handleDelete_absent_succeeds:
  "''t9'' \<notin> set (map t_id (tags example_db)) \<and>
   Tags_handleDelete accepting ''u1'' True ''t9'' example_db = (Succeeded, example_db)"
  by (simp add: Tags_handleDelete_def delete_tag_def accepting_def example_db_def tag1_def
      tag2_def)

section \<open>Listing supplies\<close>

text \<open>
  What \<^verbatim>\<open>loadSupplies\<close> lists when the backend answers its two queries and the user is in a
  group: exactly the supplies of the groups the user is a member of, in descending order
  of creation time.
\<close>

lemma loadSupplies_answered:
  assumes "denies bk user (SelectUserGroups user) db = None"
    and "denies bk user (SelectSupplies (member_group_ids db user)) db = None"
    and "is_member db g user"
  shows "Supplies_loadSupplies bk user shown db =
        (None, order_created_at_desc
                 (filter (\<lambda>s. is_member db (s_group_id s) user) (supplies db)))"
proof -
  let ?ids = "member_group_ids db user"
  have ids: "group_ids_of (select_user_groups bk user user db) = ?ids"
    by (rule group_ids_of_answered [OF assms(1)])
  have "g \<in> set ?ids" using assms(3) by (simp add: member_group_ids_iff)
  then have "?ids \<noteq> []" by auto
  then show ?thesis using assms(2) ids
    by (simp add: Supplies_loadSupplies_def Let_def select_supplies_def member_group_ids_iff)
qed

lemma loadSupplies_answered_order:
  assumes "denies bk user (SelectUserGroups user) db = None"
    and "denies bk user (SelectSupplies (member_group_ids db user)) db = None"
    and "is_member db g user"
  shows "set (snd (Supplies_loadSupplies bk user shown db)) =
           {s \<in> set (supplies db). is_member db (s_group_id s) user} \<and>
         sorted_wrt (\<lambda>a b. s_created_at b \<le> s_created_at a)
           (snd (Supplies_loadSupplies bk user shown db))"
  unfolding loadSupplies_answered [OF assms]
  by (simp add: order_set order_sorted)

text \<open>
  C8 fails on the code for a user who is no longer in any group. With no group id
  \<^verbatim>\<open>loadSupplies\<close> returns before it sets the list, and the page reloads the list after every
  save and delete: the page of \<open>u1\<close> lists the two supplies of \<open>g1\<close>, the newest first; once
  \<open>g1\<close> is deleted \<open>u1\<close> is in no group, and the reloaded list is still those two supplies,
  which are no longer in the database and whose group \<open>u1\<close> does not belong to.
\<close>

theorem Supplies_loadSupplies_keeps_stale_list:
  "Supplies_loadSupplies accepting ''u1'' [] example_db = (None, [supply2, supply1]) \<and>
   member_group_ids without_group1 ''u1'' = [] \<and>
   Supplies_loadSupplies accepting ''u1'' [supply2, supply1] without_group1 =
     (None, [supply2, supply1]) \<and>
   supplies without_group1 = [supply3] \<and> supply1 \<noteq> supply3 \<and> supply2 \<noteq> supply3 \<and>
   \<not> is_member without_group1 (s_group_id supply1) ''u1''"
  by (simp add: Supplies_loadSupplies_def Let_def group_ids_of_def select_user_groups_def
      select_supplies_def order_created_at_desc_def member_group_ids_def is_member_def
      accepting_def example_db_def without_group1_def supply1_def supply2_def supply3_def)

end
